theory Spec2Isabelle
  imports Main "HOL-Library.Word" "HOL-Library.Char_ord" "HOL-Library.List_Lexorder"
begin

section \<open>Values, errors and the local file system\<close>

text \<open>
  The script \<^verbatim>\<open>slarchive.py\<close> works on a local directory tree, an S3 bucket and a
  Globus endpoint.  Every exception and every \<^verbatim>\<open>sys.exit\<close> of the script is a value of
  \<open>error\<close>; a function that can fail returns \<open>error + 'a\<close>, with \<open>Inl\<close> for the failure.
\<close>

datatype error =
    SysExit int
  | TypeError
  | ValueError
  | UnboundLocalError
  | KeyError
  | IndexError
  | FileNotFoundError
  | IsADirectoryError
  | ReadError
  | JSONDecodeError
  | ClientError
  | S3UploadFailedError
  | CalledProcessError

text \<open>
  A path is the list of its components, as \<^verbatim>\<open>os.path.abspath\<close> normalises it
  (\<^verbatim>\<open>main\<close> passes every path through it); the root is the empty list.
\<close>

type_synonym path = "string list"

text \<open>The dictionary \<^verbatim>\<open>archive_dict\<close> that \<^verbatim>\<open>run_archive\<close> fills and dumps as JSON.\<close>

record archive_dict =
  Id_key :: string
  Timestamp :: string
  Location :: string
  Filename :: string
  LocalPath :: path
  ArchivePath :: string
  Files :: "path list"
  Sizes :: "int list"
  MD5Sums :: "string list"
  TarballMD5sum :: string
  Username :: string

text \<open>
  What a regular file holds.  A gzip-compressed tar file is represented by the members
  \<^verbatim>\<open>tarfile\<close> reads from it, a JSON sidecar by the dictionary \<^verbatim>\<open>json.load\<close> reads from
  it, anything else by its bytes.  A member carries its name, whether
  \<^verbatim>\<open>member.isfile()\<close> holds, and its content.  The name of a member is a relative
  path, as \<^verbatim>\<open>tarfile\<close> writes it (it strips a leading slash when it adds a file).
\<close>

datatype fdata =
    Raw string
  | TarGz "tarmember list"
  | Json archive_dict
and tarmember =
    Member (mname: path) (misfile: bool) (mcontent: fdata)

datatype node =
    File fdata
  | Dir "(string \<times> node) list"

text \<open>
  The library functions the script calls but does not define: \<^verbatim>\<open>hashlib.md5\<close> of a
  file's bytes, the byte length of an encoded (tar.gz or JSON) file, and
  \<^verbatim>\<open>os.path.getctime\<close>.
\<close>

record lib =
  md5 :: "fdata \<Rightarrow> string"
  enc_size :: "fdata \<Rightarrow> nat"
  getctime :: "path \<Rightarrow> nat"

fun lookup :: "node \<Rightarrow> path \<Rightarrow> node option" where
  "lookup n [] = Some n"
| "lookup (File d) (c # cs) = None"
| "lookup (Dir es) (c # cs) =
     (case map_of es c of None \<Rightarrow> None | Some n \<Rightarrow> lookup n cs)"

definition isfile :: "node \<Rightarrow> path \<Rightarrow> bool" where
  "isfile fs p = (case lookup fs p of Some (File d) \<Rightarrow> True | _ \<Rightarrow> False)"

definition isdir :: "node \<Rightarrow> path \<Rightarrow> bool" where
  "isdir fs p = (case lookup fs p of Some (Dir es) \<Rightarrow> True | _ \<Rightarrow> False)"

definition lexists :: "node \<Rightarrow> path \<Rightarrow> bool" where
  "lexists fs p = (lookup fs p \<noteq> None)"

definition dirname :: "path \<Rightarrow> path" where
  "dirname p = butlast p"

definition basename :: "path \<Rightarrow> string" where
  "basename p = (if p = [] then [] else last p)"

definition fsize :: "lib \<Rightarrow> fdata \<Rightarrow> int" where
  "fsize L d = (case d of Raw s \<Rightarrow> int (length s) | _ \<Rightarrow> int (enc_size L d))"

text \<open>\<^verbatim>\<open>os.path.getsize\<close>; on a directory it returns the size of the directory entry,
  which no claim reads: the model gives 0.\<close>

definition getsize :: "lib \<Rightarrow> node \<Rightarrow> path \<Rightarrow> error + int" where
  "getsize L fs p =
     (case lookup fs p of
        None \<Rightarrow> Inl FileNotFoundError
      | Some (File d) \<Rightarrow> Inr (fsize L d)
      | Some (Dir es) \<Rightarrow> Inr 0)"

text \<open>
  \<^verbatim>\<open>calculate_file_md5sum\<close>: opens the file and memory-maps all of it.
  \<^verbatim>\<open>mmap.mmap(fd, 0)\<close> raises \<^verbatim>\<open>ValueError\<close> on an empty file.
\<close>

definition calculate_file_md5sum :: "lib \<Rightarrow> node \<Rightarrow> path \<Rightarrow> error + string" where
  "calculate_file_md5sum L fs p =
     (case lookup fs p of
        None \<Rightarrow> Inl FileNotFoundError
      | Some (Dir es) \<Rightarrow> Inl IsADirectoryError
      | Some (File d) \<Rightarrow> if fsize L d = 0 then Inl ValueError else Inr (md5 L d))"

subsection \<open>Changing the tree\<close>

fun modify_at :: "path \<Rightarrow> (node \<Rightarrow> node) \<Rightarrow> node \<Rightarrow> node" where
  "modify_at [] h n = h n"
| "modify_at (c # cs) h (File d) = File d"
| "modify_at (c # cs) h (Dir es) =
     Dir (map (\<lambda>(k, x). if k = c then (k, modify_at cs h x) else (k, x)) es)"

fun put_entry :: "string \<Rightarrow> node \<Rightarrow> (string \<times> node) list \<Rightarrow> (string \<times> node) list" where
  "put_entry c y [] = [(c, y)]"
| "put_entry c y ((k, x) # es) =
     (if k = c then (k, y) # es else (k, x) # put_entry c y es)"

definition del_entry :: "string \<Rightarrow> (string \<times> node) list \<Rightarrow> (string \<times> node) list" where
  "del_entry c es = filter (\<lambda>(k, x). k \<noteq> c) es"

definition on_entries :: "((string \<times> node) list \<Rightarrow> (string \<times> node) list) \<Rightarrow> node \<Rightarrow> node" where
  "on_entries g n = (case n of Dir es \<Rightarrow> Dir (g es) | File d \<Rightarrow> File d)"

text \<open>\<^verbatim>\<open>open(p, 'w')\<close> followed by writing \<open>d\<close> and closing: creates or replaces the
  file; the parent directory must exist and \<open>p\<close> must not be a directory.\<close>

definition write_file :: "node \<Rightarrow> path \<Rightarrow> fdata \<Rightarrow> error + node" where
  "write_file fs p d =
     (if p = [] \<or> isdir fs p then Inl IsADirectoryError
      else if \<not> isdir fs (dirname p) then Inl FileNotFoundError
      else Inr (modify_at (dirname p) (on_entries (put_entry (basename p) (File d))) fs))"

text \<open>\<^verbatim>\<open>os.remove\<close>.\<close>

definition os_remove :: "node \<Rightarrow> path \<Rightarrow> error + node" where
  "os_remove fs p =
     (if isdir fs p then Inl IsADirectoryError
      else if \<not> isfile fs p then Inl FileNotFoundError
      else Inr (modify_at (dirname p) (on_entries (del_entry (basename p))) fs))"


section \<open>Regular expressions of the enumerator\<close>

text \<open>
  \<^verbatim>\<open>get_files\<close> skips a name when
  \<^verbatim>\<open>re.match(r'dhslabarchive.\S+.tar.gz', file)\<close> or
  \<^verbatim>\<open>re.match(r'dhslabarchive.\S+.json', file)\<close> matches.  The two patterns use three
  kinds of items only: a literal character, \<^verbatim>\<open>.\<close> (any character but a newline) and
  \<^verbatim>\<open>\S+\<close> (one or more characters that are not white space).  \<^verbatim>\<open>re.match\<close> anchors
  the pattern at the start of the string and accepts any rest.
\<close>

datatype rx = Lit char | AnyChar | NonSpacePlus

definition isspace :: "char \<Rightarrow> bool" where
  "isspace c = ((of_char c :: nat) \<in> set [9, 10, 11, 12, 13, 28, 29, 30, 31, 32, 133, 160])"

fun re_match :: "rx list \<Rightarrow> string \<Rightarrow> bool" where
  "re_match [] s = True"
| "re_match (p # r) [] = False"
| "re_match (Lit c # r) (x # xs) = (x = c \<and> re_match r xs)"
| "re_match (AnyChar # r) (x # xs) = (x \<noteq> CHR 0x0A \<and> re_match r xs)"
| "re_match (NonSpacePlus # r) (x # xs) =
     (\<not> isspace x \<and> (re_match (NonSpacePlus # r) xs \<or> re_match r xs))"

definition tarball_rx :: "rx list" where
  "tarball_rx = map Lit ''dhslabarchive'' @ [AnyChar, NonSpacePlus, AnyChar]
     @ map Lit ''tar'' @ [AnyChar] @ map Lit ''gz''"

definition json_rx :: "rx list" where
  "json_rx = map Lit ''dhslabarchive'' @ [AnyChar, NonSpacePlus, AnyChar] @ map Lit ''json''"

definition is_archive_artifact :: "string \<Rightarrow> bool" where
  "is_archive_artifact file = (re_match tarball_rx file \<or> re_match json_rx file)"

definition startswith_dot :: "string \<Rightarrow> bool" where
  "startswith_dot s = (case s of [] \<Rightarrow> False | c # cs \<Rightarrow> c = CHR ''.'')"

section \<open>Enumerating the files: \<^verbatim>\<open>get_files\<close>\<close>

text \<open>A \<^verbatim>\<open>pandas.DataFrame\<close> with the columns \<^verbatim>\<open>file\<close>, \<^verbatim>\<open>size\<close> and \<^verbatim>\<open>md5sum\<close>.
  The constructor raises \<^verbatim>\<open>ValueError\<close> when the columns differ in length.\<close>

record dataframe =
  df_file :: "path list"
  df_size :: "int list"
  df_md5sum :: "string list"

definition DataFrame :: "path list \<Rightarrow> int list \<Rightarrow> string list \<Rightarrow> error + dataframe" where
  "DataFrame fl sl ml =
     (if length fl = length sl \<and> length sl = length ml
      then Inr \<lparr>df_file = fl, df_size = sl, df_md5sum = ml\<rparr>
      else Inl ValueError)"

definition is_dir_node :: "node \<Rightarrow> bool" where
  "is_dir_node n = (case n of Dir es \<Rightarrow> True | File d \<Rightarrow> False)"

text \<open>\<^verbatim>\<open>os.walk(top)\<close>, top-down: the triple of a directory comes before those of its
  sub-directories, which follow in the order of the directory listing.\<close>

fun os_walk :: "path \<Rightarrow> node \<Rightarrow> (path \<times> string list \<times> string list) list"
  and os_walk_dirs :: "path \<Rightarrow> (string \<times> node) list \<Rightarrow> (path \<times> string list \<times> string list) list"
where
  "os_walk topdir (File d) = []"
| "os_walk topdir (Dir es) =
     (topdir, map fst (filter (\<lambda>(k, x). is_dir_node x) es),
           map fst (filter (\<lambda>(k, x). \<not> is_dir_node x) es)) # os_walk_dirs topdir es"
| "os_walk_dirs topdir [] = []"
| "os_walk_dirs topdir ((k, x) # es) = os_walk (topdir @ [k]) x @ os_walk_dirs topdir es"

text \<open>The first loop of \<^verbatim>\<open>get_files\<close>: the full paths of the files that are kept.\<close>

definition all_files :: "(path \<times> string list \<times> string list) list \<Rightarrow> path list" where
  "all_files walk =
     concat (map (\<lambda>(root, dirs, f).
       map (\<lambda>file. root @ [file]) (filter (\<lambda>file. \<not> is_archive_artifact file) f)) walk)"

definition relpath :: "path \<Rightarrow> path \<Rightarrow> path" where
  "relpath fullpath start = drop (length start) fullpath"

text \<open>The second loop: relative path, size and MD5 sum of each file, in order; the first
  failure ends the loop.\<close>

fun prepare_files ::
  "lib \<Rightarrow> node \<Rightarrow> path \<Rightarrow> path list \<Rightarrow> error + (path list \<times> int list \<times> string list)" where
  "prepare_files L fs filepath [] = Inr ([], [], [])"
| "prepare_files L fs filepath (fullpath # rest) =
     (case getsize L fs fullpath of
        Inl e \<Rightarrow> Inl e
      | Inr sz \<Rightarrow>
         (case calculate_file_md5sum L fs fullpath of
            Inl e \<Rightarrow> Inl e
          | Inr h \<Rightarrow>
             (case prepare_files L fs filepath rest of
                Inl e \<Rightarrow> Inl e
              | Inr (fl, sl, ml) \<Rightarrow> Inr (relpath fullpath filepath # fl, sz # sl, h # ml))))"

definition get_files :: "lib \<Rightarrow> node \<Rightarrow> path \<Rightarrow> error + dataframe" where
  "get_files L fs filepath =
     (case lookup fs filepath of
        Some (File d) \<Rightarrow> DataFrame [filepath] [fsize L d] []
      | Some (Dir es) \<Rightarrow>
         (case prepare_files L fs filepath (all_files (os_walk filepath (Dir es))) of
            Inl e \<Rightarrow> Inl e
          | Inr (fl, sl, ml) \<Rightarrow> DataFrame fl sl ml)
      | None \<Rightarrow> Inl (SysExit 1))"

section \<open>The bundle: \<^verbatim>\<open>create_tarball\<close>, \<^verbatim>\<open>get_tarball_md5sums\<close>, \<^verbatim>\<open>test_tarball_integrity\<close>\<close>

text \<open>\<^verbatim>\<open>get_tarball_md5sums\<close>: one row per member with \<^verbatim>\<open>member.isfile()\<close>.\<close>

definition get_tarball_md5sums :: "lib \<Rightarrow> node \<Rightarrow> path \<Rightarrow> error + dataframe" where
  "get_tarball_md5sums L fs tarball_name =
     (case lookup fs tarball_name of
        None \<Rightarrow> Inl FileNotFoundError
      | Some (Dir es) \<Rightarrow> Inl IsADirectoryError
      | Some (File (TarGz ms)) \<Rightarrow>
          (let rows = filter misfile ms in
           Inr \<lparr>df_file = map mname rows,
                df_size = map (\<lambda>m. fsize L (mcontent m)) rows,
                df_md5sum = map (\<lambda>m. md5 L (mcontent m)) rows\<rparr>)
      | Some (File d) \<Rightarrow> Inl ReadError)"

text \<open>The second argument of \<^verbatim>\<open>test_tarball_integrity\<close> is a Python value; the function
  first asks whether it is a list.\<close>

datatype pyval = PyList "string list" | PyOther

definition test_tarball_integrity :: "lib \<Rightarrow> node \<Rightarrow> path \<Rightarrow> pyval \<Rightarrow> error + bool" where
  "test_tarball_integrity L fs tarball_path md5sums =
     (case md5sums of
        PyOther \<Rightarrow> Inr False
      | PyList sums \<Rightarrow>
         (case get_tarball_md5sums L fs tarball_path of
            Inl e \<Rightarrow> Inl e
          | Inr tarball_md5sums \<Rightarrow>
              if set (df_md5sum tarball_md5sums) = set sums then Inr True else Inr False))"

text \<open>\<^verbatim>\<open>tar.add(name, arcname)\<close>: a regular file becomes one member; a directory becomes
  a member that is not a file, followed by its entries in sorted order.\<close>

fun tar_add :: "node \<Rightarrow> path \<Rightarrow> tarmember list" where
  "tar_add (File d) arcname = [Member arcname True d]"
| "tar_add (Dir es) arcname =
     Member arcname False (Raw []) #
       concat (map (\<lambda>(k, x). tar_add x (arcname @ [k])) (sort_key fst es))"

text \<open>The loop of \<^verbatim>\<open>create_tarball\<close>: the members added so far, and the error that
  stopped it, if any.\<close>

fun add_all :: "node \<Rightarrow> path \<Rightarrow> path list \<Rightarrow> tarmember list \<times> error option" where
  "add_all fs directory [] = ([], None)"
| "add_all fs directory (file_path # rest) =
     (case lookup fs (directory @ file_path) of
        None \<Rightarrow> ([], Some FileNotFoundError)
      | Some n \<Rightarrow>
         (case add_all fs directory rest of
            (ms, err) \<Rightarrow> (tar_add n file_path @ ms, err)))"

text \<open>\<^verbatim>\<open>create_tarball\<close>: \<^verbatim>\<open>tarfile.open(tarball_path, 'w:gz')\<close> creates the file, the
  loop adds the members, leaving the with-block closes it.  After an error the file
  written so far stays on disk.\<close>

definition create_tarball :: "node \<Rightarrow> path list \<Rightarrow> path \<Rightarrow> error option \<times> node" where
  "create_tarball fs files tarball_path =
     (case write_file fs tarball_path (TarGz []) of
        Inl e \<Rightarrow> (Some e, fs)
      | Inr fs0 \<Rightarrow>
         (case add_all fs (dirname tarball_path) files of
            (ms, err) \<Rightarrow>
              (case write_file fs0 tarball_path (TarGz ms) of
                 Inl e \<Rightarrow> (Some e, fs0)
               | Inr fs1 \<Rightarrow> (err, fs1))))"


section \<open>\<^verbatim>\<open>glob.glob\<close> and \<^verbatim>\<open>fnmatch\<close>\<close>

text \<open>
  \<^verbatim>\<open>run_archive\<close> and \<^verbatim>\<open>run_restore\<close> look for a sidecar with
  \<^verbatim>\<open>glob.glob(os.path.join(filepath, 'dhslabarchive.*.json'))\<close>.  \<^verbatim>\<open>glob\<close> reads the
  whole path as a pattern, so the components of \<^verbatim>\<open>filepath\<close> are patterns too.  The
  model follows CPython 3.11: \<^verbatim>\<open>fnmatch.translate\<close> turns a component into items
  (\<^verbatim>\<open>*\<close>, \<^verbatim>\<open>?\<close>, a character, a bracket expression), a bracket expression is split
  into chunks at the hyphens that form ranges, and empty ranges are removed.
\<close>

datatype fn_tok = Star | AnyOne | Ch char | CharSet bool "string list" | Never

fun index_of :: "char \<Rightarrow> string \<Rightarrow> nat option" where
  "index_of c [] = None"
| "index_of c (x # xs) =
     (if x = c then Some 0 else map_option Suc (index_of c xs))"

text \<open>The index of the \<^verbatim>\<open>]\<close> that closes a bracket expression, in the text after
  the \<^verbatim>\<open>[\<close>: a leading \<^verbatim>\<open>!\<close> and a \<^verbatim>\<open>]\<close> right after it do not close.\<close>

definition bracket_end :: "string \<Rightarrow> nat option" where
  "bracket_end r =
     (let j0 = (if take 1 r = ''!'' then 1 else 0);
          j1 = (if take 1 (drop j0 r) = '']'' then j0 + 1 else j0)
      in map_option (\<lambda>d. d + j1) (index_of (CHR '']'') (drop j1 r)))"

lemma index_of_less: "index_of c xs = Some d \<Longrightarrow> d < length xs"
  by (induction xs arbitrary: d) (auto split: if_splits)

text \<open>The chunks of a bracket expression: the search for the next hyphen starts \<open>m\<close>
  characters into the current chunk.\<close>

function chunks_of :: "nat \<Rightarrow> string \<Rightarrow> string list \<times> string" where
  "chunks_of m s =
     (case index_of (CHR ''-'') (drop m s) of
        None \<Rightarrow> ([], s)
      | Some d \<Rightarrow>
          (case chunks_of 2 (drop (m + d + 1) s) of
             (cs, fin) \<Rightarrow> (take (m + d) s # cs, fin)))"
  by pat_completeness auto
termination
  by (relation "measure (\<lambda>(m, s). length s)") (auto dest!: index_of_less)

fun merge_ranges :: "string list \<Rightarrow> string list" where
  "merge_ranges [] = []"
| "merge_ranges [a] = [a]"
| "merge_ranges (a # c # cs) =
     (case merge_ranges (c # cs) of
        [] \<Rightarrow> [a]
      | b # bs \<Rightarrow>
          if a \<noteq> [] \<and> b \<noteq> [] \<and> (of_char (last a) :: nat) > of_char (hd b)
          then (butlast a @ tl b) # bs
          else a # b # bs)"

definition class_chunks :: "string \<Rightarrow> string list" where
  "class_chunks stuff =
     (if CHR ''-'' \<notin> set stuff then [stuff]
      else
        (case chunks_of (if take 1 stuff = ''!'' then 2 else 1) stuff of
           (cs, fin) \<Rightarrow>
             merge_ranges
               (if fin \<noteq> [] then cs @ [fin]
                else if cs = [] then []
                else butlast cs @ [last cs @ ''-''])))"

definition class_tok :: "string \<Rightarrow> fn_tok" where
  "class_tok stuff =
     (let chs = class_chunks stuff in
      if chs = [] \<or> chs = [[]] then Never
      else if chs = [''!''] then AnyOne
      else if take 1 (hd chs) = ''!'' then CharSet True (tl (hd chs) # tl chs)
      else CharSet False chs)"

function fn_translate :: "string \<Rightarrow> fn_tok list" where
  "fn_translate [] = []"
| "fn_translate (c # rest) =
     (if c = CHR ''*'' then Star # fn_translate rest
      else if c = CHR ''?'' then AnyOne # fn_translate rest
      else if c = CHR ''['' then
        (case bracket_end rest of
           None \<Rightarrow> Ch (CHR ''['') # fn_translate rest
         | Some j \<Rightarrow> class_tok (take j rest) # fn_translate (drop (Suc j) rest))
      else Ch c # fn_translate rest)"
  by pat_completeness auto
termination
  by (relation "measure length") auto

fun in_ranges :: "string list \<Rightarrow> char \<Rightarrow> bool" where
  "in_ranges (a # b # cs) x =
     ((a \<noteq> [] \<and> b \<noteq> [] \<and> (of_char (last a) :: nat) \<le> of_char x \<and> (of_char x :: nat) \<le> of_char (hd b))
      \<or> in_ranges (b # cs) x)"
| "in_ranges cs x = False"

definition in_chunks :: "string list \<Rightarrow> char \<Rightarrow> bool" where
  "in_chunks chs x = (x \<in> set (concat chs) \<or> in_ranges chs x)"

fun tok_ok :: "fn_tok \<Rightarrow> char \<Rightarrow> bool" where
  "tok_ok AnyOne x = True"
| "tok_ok Never x = False"
| "tok_ok (Ch c) x = (x = c)"
| "tok_ok (CharSet neg chs) x = (in_chunks chs x \<noteq> neg)"
| "tok_ok Star x = True"

fun fn_match :: "fn_tok list \<Rightarrow> string \<Rightarrow> bool" where
  "fn_match [] s = (s = [])"
| "fn_match (Star # ts) [] = fn_match ts []"
| "fn_match (Star # ts) (x # xs) = (fn_match ts (x # xs) \<or> fn_match (Star # ts) xs)"
| "fn_match (t # ts) [] = False"
| "fn_match (t # ts) (x # xs) = (tok_ok t x \<and> fn_match ts xs)"

definition fnmatch :: "string \<Rightarrow> string \<Rightarrow> bool" where
  "fnmatch name pat = fn_match (fn_translate pat) name"

definition has_magic :: "string \<Rightarrow> bool" where
  "has_magic s = (\<exists>c \<in> set s. c = CHR ''*'' \<or> c = CHR ''?'' \<or> c = CHR ''['')"

text \<open>\<^verbatim>\<open>glob._glob1\<close>: the names in a directory that match a pattern; hidden names
  only for a pattern that starts with a dot; directories only when \<open>dironly\<close>.\<close>

definition glob1 :: "node \<Rightarrow> path \<Rightarrow> string \<Rightarrow> bool \<Rightarrow> string list" where
  "glob1 fs dn pat dironly =
     (case lookup fs dn of
        Some (Dir es) \<Rightarrow>
          (let names = map fst (filter (\<lambda>(k, x). \<not> dironly \<or> is_dir_node x) es);
               names' = (if startswith_dot pat then names
                         else filter (\<lambda>k. \<not> startswith_dot k) names)
           in filter (\<lambda>k. fnmatch k pat) names')
      | _ \<Rightarrow> [])"

text \<open>\<^verbatim>\<open>glob._glob0\<close>: a component without wildcards stands for itself, when it exists.\<close>

definition glob0 :: "node \<Rightarrow> path \<Rightarrow> string \<Rightarrow> string list" where
  "glob0 fs dn b = (if lexists fs (dn @ [b]) then [b] else [])"

text \<open>\<^verbatim>\<open>glob._iglob\<close>, on the components of the pattern in reverse order (the last
  component first).\<close>

fun iglob_rev :: "node \<Rightarrow> string list \<Rightarrow> bool \<Rightarrow> path list" where
  "iglob_rev fs [] dironly = [[]]"
| "iglob_rev fs (b # d) dironly =
     (if \<not> (\<exists>c \<in> set (b # d). has_magic c)
      then (if lexists fs (rev (b # d)) then [rev (b # d)] else [])
      else
        (let dirs = (if (\<exists>c \<in> set d. has_magic c) then iglob_rev fs d True else [rev d])
         in concat (map (\<lambda>dn. map (\<lambda>name. dn @ [name])
                      (if has_magic b then glob1 fs dn b dironly else glob0 fs dn b)) dirs)))"

definition glob_glob :: "node \<Rightarrow> path \<Rightarrow> path list" where
  "glob_glob fs pathname = iglob_rev fs (rev pathname) False"

definition sidecar_pattern :: "path \<Rightarrow> path" where
  "sidecar_pattern filepath = filepath @ [''dhslabarchive.*.json'']"


section \<open>The world outside: S3 and the Globus endpoint\<close>

text \<open>
  An S3 object has a body and the two headers the script reads from
  \<^verbatim>\<open>head_object\<close>: \<^verbatim>\<open>StorageClass\<close> and \<^verbatim>\<open>Restore\<close>.  The \<^verbatim>\<open>Restore\<close> header
  changes with time without the script doing anything, so it is a function of the
  clock, which \<^verbatim>\<open>time.sleep\<close> advances.
\<close>

record s3obj =
  body :: fdata
  StorageClass :: "string option"
  Restore :: "nat \<Rightarrow> string option"

datatype globus_task = SubmitFailed | WaitFailed | TaskStatus string

record world =
  fsys :: node
  s3_up :: bool
  buckets :: "string list"
  objects :: "string \<times> string \<Rightarrow> s3obj option"
  upload_error :: "error option"
  restore_refused :: bool
  restore_requests :: "(string \<times> string) list"
  clock :: nat
  globus :: globus_task
  ris_store :: "(string \<times> string \<times> fdata) list"

record config =
  mode :: string
  username :: string
  s3_region :: string
  storage_class :: string
  globus_endpoint :: string
  ris_archive_path :: string

text \<open>\<^verbatim>\<open>check_s3_bucket\<close> and \<^verbatim>\<open>check_s3_object\<close>: a 404 answer is \<^verbatim>\<open>False\<close>, any other
  \<^verbatim>\<open>ClientError\<close> ends the program.\<close>

definition check_s3_bucket :: "world \<Rightarrow> string \<Rightarrow> error + bool" where
  "check_s3_bucket w bucket_name =
     (if \<not> s3_up w then Inl (SysExit 1) else Inr (bucket_name \<in> set (buckets w)))"

definition check_s3_object :: "world \<Rightarrow> string \<Rightarrow> string \<Rightarrow> error + bool" where
  "check_s3_object w bucket_name object_name =
     (if \<not> s3_up w then Inl (SysExit 1)
      else Inr (objects w (bucket_name, object_name) \<noteq> None))"

text \<open>\<^verbatim>\<open>check_storage_class\<close> does not catch the error of \<^verbatim>\<open>head_object\<close>, and
  indexes the answer with \<^verbatim>\<open>'StorageClass'\<close>.\<close>

definition check_storage_class :: "world \<Rightarrow> string \<Rightarrow> string \<Rightarrow> error + string" where
  "check_storage_class w bucket_name object_name =
     (if \<not> s3_up w then Inl ClientError
      else
        (case objects w (bucket_name, object_name) of
           None \<Rightarrow> Inl ClientError
         | Some obj \<Rightarrow>
             (case StorageClass obj of None \<Rightarrow> Inl KeyError | Some c \<Rightarrow> Inr c)))"

text \<open>\<^verbatim>\<open>transfer_to_s3\<close> returns \<^verbatim>\<open>None\<close> when the object exists already, \<^verbatim>\<open>False\<close>
  after a \<^verbatim>\<open>ClientError\<close> of the upload and \<^verbatim>\<open>True\<close> after an upload.\<close>

definition transfer_to_s3 ::
  "world \<Rightarrow> string \<Rightarrow> path \<Rightarrow> bool \<Rightarrow> string \<Rightarrow> (error + bool option) \<times> world" where
  "transfer_to_s3 w bucket tarball_path overwrite sclass =
     (case check_s3_bucket w bucket of
        Inl e \<Rightarrow> (Inl e, w)
      | Inr False \<Rightarrow> (Inl (SysExit 1), w)
      | Inr True \<Rightarrow>
         (case check_s3_object w bucket (basename tarball_path) of
            Inl e \<Rightarrow> (Inl e, w)
          | Inr ex \<Rightarrow>
             if ex \<and> \<not> overwrite then (Inr None, w)
             else
               (case lookup (fsys w) tarball_path of
                  Some (File d) \<Rightarrow>
                    (case upload_error w of
                       Some ClientError \<Rightarrow> (Inr (Some False), w)
                     | Some e \<Rightarrow> (Inl e, w)
                     | None \<Rightarrow>
                         (Inr (Some True),
                          w\<lparr>objects := (objects w)((bucket, basename tarball_path) \<mapsto>
                               \<lparr>body = d,
                                StorageClass = (if sclass = ''STANDARD'' then None else Some sclass),
                                Restore = (\<lambda>t. None)\<rparr>)\<rparr>))
                | Some (Dir es) \<Rightarrow> (Inl IsADirectoryError, w)
                | None \<Rightarrow> (Inl FileNotFoundError, w))))"

text \<open>\<^verbatim>\<open>globus_transfer_to_archive\<close>: every failure of the Globus command line ends the
  program or raises; after a task that \<^verbatim>\<open>SUCCEEDED\<close> the file is at the destination.\<close>

definition globus_transfer_to_archive ::
  "world \<Rightarrow> path \<Rightarrow> string \<Rightarrow> string \<Rightarrow> error option \<times> world" where
  "globus_transfer_to_archive w file_path endpoint_id destination_path =
     (case globus w of
        SubmitFailed \<Rightarrow> (Some (SysExit 1), w)
      | WaitFailed \<Rightarrow> (Some CalledProcessError, w)
      | TaskStatus st \<Rightarrow>
          if st \<noteq> ''SUCCEEDED'' then (Some (SysExit 1), w)
          else
            (case lookup (fsys w) file_path of
               Some (File d) \<Rightarrow>
                 (None, w\<lparr>ris_store := (destination_path, basename file_path, d) # ris_store w\<rparr>)
             | _ \<Rightarrow> (Some (SysExit 1), w)))"

text \<open>\<^verbatim>\<open>check_restore_status\<close>: the \<^verbatim>\<open>Restore\<close> header of the object, or \<^verbatim>\<open>None\<close>.\<close>

definition check_restore_status :: "world \<Rightarrow> string \<Rightarrow> string \<Rightarrow> error + string option" where
  "check_restore_status w bucket_name object_key =
     (if \<not> s3_up w then Inl (SysExit 1)
      else
        (case objects w (bucket_name, object_key) of
           None \<Rightarrow> Inl (SysExit 1)
         | Some obj \<Rightarrow> Inr (Restore obj (clock w))))"

definition initiate_deep_archive_restore :: "world \<Rightarrow> string \<Rightarrow> string \<Rightarrow> error option \<times> world" where
  "initiate_deep_archive_restore w bucket_name object_key =
     (if \<not> s3_up w \<or> objects w (bucket_name, object_key) = None \<or> restore_refused w
      then (Some (SysExit 1), w)
      else (None, w\<lparr>restore_requests := restore_requests w @ [(bucket_name, object_key)]\<rparr>))"

fun startswith :: "string \<Rightarrow> string \<Rightarrow> bool" where
  "startswith s [] = True"
| "startswith [] (p # ps) = False"
| "startswith (x # xs) (p # ps) = (x = p \<and> startswith xs ps)"

text \<open>Python's \<^verbatim>\<open>sub in s\<close> on strings.\<close>

fun str_contains :: "string \<Rightarrow> string \<Rightarrow> bool" where
  "str_contains sub [] = (sub = [])"
| "str_contains sub (x # xs) = (startswith (x # xs) sub \<or> str_contains sub xs)"

definition ongoing_false :: string where
  "ongoing_false = ''ongoing-request='' @ [CHR 0x22] @ ''false'' @ [CHR 0x22]"

text \<open>\<^verbatim>\<open>wait_for_restore\<close>: the loop \<^verbatim>\<open>while True\<close> may run forever; then the result is
  \<open>None\<close>.  Each \<^verbatim>\<open>time.sleep(poll_interval)\<close> advances the clock by one.\<close>

partial_function (option) wait_for_restore ::
  "world \<Rightarrow> string \<Rightarrow> string \<Rightarrow> (error option \<times> world) option" where
  "wait_for_restore w bucket_name object_key =
     (case check_restore_status w bucket_name object_key of
        Inl e \<Rightarrow> Some (Some e, w)
      | Inr status \<Rightarrow>
         (case status of
            None \<Rightarrow> Some (Some (SysExit 1), w)
          | Some st \<Rightarrow>
              if st = [] then Some (Some (SysExit 1), w)
              else if str_contains ongoing_false st then Some (None, w)
              else wait_for_restore (w\<lparr>clock := Suc (clock w)\<rparr>) bucket_name object_key))"

declare wait_for_restore.simps [code]

definition download_s3_object :: "world \<Rightarrow> string \<Rightarrow> string \<Rightarrow> path \<Rightarrow> error option \<times> world" where
  "download_s3_object w bucket_name object_key download_path =
     (if \<not> s3_up w then (Some (SysExit 1), w)
      else
        (case objects w (bucket_name, object_key) of
           None \<Rightarrow> (Some (SysExit 1), w)
         | Some obj \<Rightarrow>
             (case write_file (fsys w) download_path (body obj) of
                Inl e \<Rightarrow> (Some e, w)
              | Inr fs' \<Rightarrow> (None, w\<lparr>fsys := fs'\<rparr>))))"


section \<open>\<^verbatim>\<open>run_archive\<close>\<close>

text \<open>\<^verbatim>\<open>fileDf['size'].sum()\<close>: the column holds 64-bit integers and the sum wraps around;
  it is the exact sum as long as that is below \<open>2 ^ 63\<close>.\<close>

definition pd_sum :: "int list \<Rightarrow> int" where
  "pd_sum xs = sint (word_of_int (sum_list xs) :: 64 word)"

text \<open>\<^verbatim>\<open>s.split('.')\<close>.\<close>

fun split_on :: "char \<Rightarrow> string \<Rightarrow> string list" where
  "split_on c [] = [[]]"
| "split_on c (x # xs) =
     (if x = c then [] # split_on c xs
      else (case split_on c xs of [] \<Rightarrow> [[x]] | p # ps \<Rightarrow> (x # p) # ps))"



definition tarball_name :: "string \<Rightarrow> string" where
  "tarball_name unique_id = ''dhslabarchive.'' @ unique_id @ ''.tar.gz''"

definition json_name :: "string \<Rightarrow> string" where
  "json_name unique_id = ''dhslabarchive.'' @ unique_id @ ''.json''"

text \<open>
  Lines 771 to 803: what is archived.  With the \<^verbatim>\<open>tarball\<close> flag the path is a bundle
  that exists already; without it the directory is enumerated, the two guards (no
  file, more than 2 TB) are checked and the bundle is built.  The result is the unique
  id, the path of the bundle, the local path and the data frame.  \<open>rid\<close> is the
  string that \<^verbatim>\<open>random.choices\<close> draws.
\<close>

definition archive_select ::
  "lib \<Rightarrow> path \<Rightarrow> bool \<Rightarrow> string \<Rightarrow> world
     \<Rightarrow> (error + (string \<times> path \<times> path \<times> dataframe)) \<times> world" where
  "archive_select L filepath tarball rid w =
     (if tarball then
        (case split_on (CHR ''.'') (basename filepath) of
           a # unique_id # rest \<Rightarrow>
             (case get_tarball_md5sums L (fsys w) filepath of
                Inl e \<Rightarrow> (Inl e, w)
              | Inr fileDf \<Rightarrow> (Inr (unique_id, filepath, dirname filepath, fileDf), w))
         | _ \<Rightarrow> (Inl IndexError, w))
      else
        (let unique_id = rid;
             tarball_path = filepath @ [tarball_name unique_id]
         in case get_files L (fsys w) filepath of
              Inl e \<Rightarrow> (Inl e, w)
            | Inr fileDf \<Rightarrow>
                if length (df_file fileDf) = 0 then (Inl (SysExit 1), w)
                else if pd_sum (df_size fileDf) > 2000000000000 then (Inl (SysExit 1), w)
                else
                  (case create_tarball (fsys w) (df_file fileDf) tarball_path of
                     (Some e, fs') \<Rightarrow> (Inl e, w\<lparr>fsys := fs'\<rparr>)
                   | (None, fs') \<Rightarrow>
                       (Inr (unique_id, tarball_path, filepath, fileDf), w\<lparr>fsys := fs'\<rparr>))))"

text \<open>Lines 832 to 852: the transfer.  Both branches run inside
  \<^verbatim>\<open>try ... except Exception\<close>, which ends the program with status 1; the value that
  \<^verbatim>\<open>transfer_to_s3\<close> returns is not read.\<close>

definition archive_transfer :: "config \<Rightarrow> string \<Rightarrow> path \<Rightarrow> world \<Rightarrow> error option \<times> world" where
  "archive_transfer cfg archivepath tarball_path w =
     (if mode cfg = ''glacier'' then
        (case transfer_to_s3 w archivepath tarball_path False (storage_class cfg) of
           (Inl e, w1) \<Rightarrow> (Some (SysExit 1), w1)
         | (Inr r, w1) \<Rightarrow>
             (case os_remove (fsys w1) tarball_path of
                Inl e \<Rightarrow> (Some (SysExit 1), w1)
              | Inr fs' \<Rightarrow> (None, w1\<lparr>fsys := fs'\<rparr>)))
      else if mode cfg = ''ris_archive'' then
        (case globus_transfer_to_archive w tarball_path (globus_endpoint cfg) (ris_archive_path cfg) of
           (Some e, w1) \<Rightarrow> (Some (SysExit 1), w1)
         | (None, w1) \<Rightarrow>
             (case os_remove (fsys w1) tarball_path of
                Inl e \<Rightarrow> (Some (SysExit 1), w1)
              | Inr fs' \<Rightarrow> (None, w1\<lparr>fsys := fs'\<rparr>)))
      else (None, w))"

text \<open>Lines 857 to 860: every file of the data frame that is a file is removed.\<close>

fun remove_files :: "node \<Rightarrow> path \<Rightarrow> path list \<Rightarrow> error + node" where
  "remove_files fs filepath [] = Inr fs"
| "remove_files fs filepath (file # rest) =
     (let fullpath = filepath @ file in
      if isfile fs fullpath then
        (case os_remove fs fullpath of
           Inl e \<Rightarrow> Inl e
         | Inr fs' \<Rightarrow> remove_files fs' filepath rest)
      else remove_files fs filepath rest)"

text \<open>
  Lines 863 to 870: \<^verbatim>\<open>os.walk(filepath, topdown=False)\<close> visits the sub-directories of a
  directory before the directory itself.  At each directory the loop removes, by name,
  the sub-directories that are empty by then and whose names do not start with a dot
  (\<^verbatim>\<open>os.listdir\<close> and \<^verbatim>\<open>os.rmdir\<close> on the joined path).
\<close>

definition rmdir_empty :: "(string \<times> node) list \<Rightarrow> (string \<times> node) list" where
  "rmdir_empty es =
     filter (\<lambda>(k, x). \<not> (\<not> startswith_dot k \<and> map_of es k = Some (Dir []))) es"

fun walk_rmdir :: "node \<Rightarrow> node"
  and walk_rmdir_dirs :: "(string \<times> node) list \<Rightarrow> (string \<times> node) list" where
  "walk_rmdir (File d) = File d"
| "walk_rmdir (Dir es) = Dir (rmdir_empty (walk_rmdir_dirs es))"
| "walk_rmdir_dirs [] = []"
| "walk_rmdir_dirs ((k, x) # es) = (k, walk_rmdir x) # walk_rmdir_dirs es"

definition archive_cleanup :: "path \<Rightarrow> dataframe \<Rightarrow> node \<Rightarrow> error + node" where
  "archive_cleanup filepath fileDf fs0 =
     (case remove_files fs0 filepath (df_file fileDf) of
        Inl e \<Rightarrow> Inl e
      | Inr fs1 \<Rightarrow> Inr (modify_at filepath walk_rmdir fs1))"

text \<open>\<open>ts\<close> is the formatted time stamp.\<close>

definition run_archive ::
  "lib \<Rightarrow> config \<Rightarrow> path \<Rightarrow> string \<Rightarrow> bool \<Rightarrow> bool \<Rightarrow> bool \<Rightarrow> bool \<Rightarrow> string \<Rightarrow> string
     \<Rightarrow> world \<Rightarrow> (error + archive_dict) \<times> world" where
  "run_archive L cfg filepath archivepath tarball force overwrite keep rid ts w =
     (let existing_json = glob_glob (fsys w) (sidecar_pattern filepath) in
      if existing_json \<noteq> [] \<and> \<not> force \<and> \<not> overwrite then (Inl (SysExit 1), w)
      else if existing_json \<noteq> [] \<and> overwrite then (Inl TypeError, w)
      else
        (case archive_select L filepath tarball rid w of
           (Inl e, w1) \<Rightarrow> (Inl e, w1)
         | (Inr (unique_id, tarball_path, filepath', fileDf), w1) \<Rightarrow>
            (case calculate_file_md5sum L (fsys w1) tarball_path of
               Inl e \<Rightarrow> (Inl e, w1)
             | Inr tarball_md5sum \<Rightarrow>
                (case test_tarball_integrity L (fsys w1) tarball_path (PyList (df_md5sum fileDf)) of
                   Inl e \<Rightarrow> (Inl e, w1)
                 | Inr False \<Rightarrow>
                     if keep then (Inl (SysExit 1), w1)
                     else
                       (case os_remove (fsys w1) tarball_path of
                          Inl e \<Rightarrow> (Inl e, w1)
                        | Inr fs' \<Rightarrow> (Inl (SysExit 1), w1\<lparr>fsys := fs'\<rparr>))
                 | Inr True \<Rightarrow>
                    (let archive_dict =
                           \<lparr>Id_key = unique_id, Timestamp = ts, Location = mode cfg,
                            Filename = basename tarball_path, LocalPath = filepath',
                            ArchivePath = archivepath, Files = df_file fileDf,
                            Sizes = df_size fileDf, MD5Sums = df_md5sum fileDf,
                            TarballMD5sum = tarball_md5sum, Username = username cfg\<rparr>
                     in
                     if mode cfg = ''dry-run'' then (Inr archive_dict, w1)
                     else
                       (case archive_transfer cfg archivepath tarball_path w1 of
                          (Some e, w2) \<Rightarrow> (Inl e, w2)
                        | (None, w2) \<Rightarrow>
                           (case (if keep then Inr (fsys w2)
                                  else archive_cleanup filepath' fileDf (fsys w2)) of
                              Inl e \<Rightarrow> (Inl e, w2)
                            | Inr fs3 \<Rightarrow>
                               (case write_file fs3 (filepath' @ [json_name unique_id])
                                       (Json archive_dict) of
                                  Inl e \<Rightarrow> (Inl e, w2\<lparr>fsys := fs3\<rparr>)
                                | Inr fs4 \<Rightarrow> (Inr archive_dict, w2\<lparr>fsys := fs4\<rparr>)))))))))"

section \<open>\<^verbatim>\<open>run_restore\<close>\<close>

text \<open>\<^verbatim>\<open>max(xs, key=f)\<close>: the first element with the greatest key.\<close>

fun max_by :: "('a \<Rightarrow> nat) \<Rightarrow> 'a list \<Rightarrow> error + 'a" where
  "max_by key [] = Inl ValueError"
| "max_by key (x # xs) = Inr (foldl (\<lambda>best y. if key y > key best then y else best) x xs)"

definition json_load :: "node \<Rightarrow> path \<Rightarrow> error + archive_dict" where
  "json_load fs p =
     (case lookup fs p of
        None \<Rightarrow> Inl FileNotFoundError
      | Some (Dir es) \<Rightarrow> Inl IsADirectoryError
      | Some (File (Json d)) \<Rightarrow> Inr d
      | Some (File d) \<Rightarrow> Inl JSONDecodeError)"

text \<open>Lines 899 to 926: an object on S3.  An archival class asks for the restore
  status, requests a restore, waits and downloads; an instant class downloads.\<close>

definition restore_glacier ::
  "archive_dict \<Rightarrow> path \<Rightarrow> world \<Rightarrow> (error option \<times> world) option" where
  "restore_glacier archive_dict filepath w =
     (case check_storage_class w (ArchivePath archive_dict) (Filename archive_dict) of
        Inl e \<Rightarrow> Some (Some e, w)
      | Inr sclass \<Rightarrow>
         if sclass = ''DEEP_ARCHIVE'' \<or> sclass = ''GLACIER'' then
           (case check_restore_status w (ArchivePath archive_dict) (Filename archive_dict) of
              Inl e \<Rightarrow> Some (Some e, w)
            | Inr None \<Rightarrow> Some (Some TypeError, w)
            | Inr (Some restore_status) \<Rightarrow>
               (case (if str_contains ongoing_false restore_status
                      then initiate_deep_archive_restore w (ArchivePath archive_dict)
                             (Filename archive_dict)
                      else (None, w)) of
                  (Some e, w1) \<Rightarrow> Some (Some e, w1)
                | (None, w1) \<Rightarrow>
                   (case wait_for_restore w1 (ArchivePath archive_dict) (Filename archive_dict) of
                      None \<Rightarrow> None
                    | Some (Some e, w2) \<Rightarrow> Some (Some e, w2)
                    | Some (None, w2) \<Rightarrow>
                        Some (download_s3_object w2 (ArchivePath archive_dict)
                                (Filename archive_dict) (filepath @ [Filename archive_dict])))))
         else if sclass = ''STANDARD_IA'' \<or> sclass = ''STANDARD'' \<or> sclass = ''GLACIER_IR'' then
           Some (download_s3_object w (ArchivePath archive_dict) (Filename archive_dict)
                   (filepath @ [Filename archive_dict]))
         else Some (Some (SysExit 1), w))"

text \<open>
  Lines 936 to 953.  \<^verbatim>\<open>tarball\<close> is a local variable of \<^verbatim>\<open>run_restore\<close> (line 944
  assigns it), so line 937 reads a local variable; \<open>tarball\<close> is its value there,
  \<open>None\<close> when nothing has been assigned to it yet.  The extraction that follows in
  the source is commented out.
\<close>

definition restore_verify ::
  "lib \<Rightarrow> node \<Rightarrow> archive_dict \<Rightarrow> path \<Rightarrow> path option \<Rightarrow> error option" where
  "restore_verify L fs0 archive_dict filepath tarball =
     (case tarball of
        None \<Rightarrow> Some UnboundLocalError
      | Some tb \<Rightarrow>
         (case calculate_file_md5sum L fs0 tb of
            Inl e \<Rightarrow> Some e
          | Inr tarball_md5sum \<Rightarrow>
              if tarball_md5sum \<noteq> TarballMD5sum archive_dict then Some (SysExit 1)
              else
                (case test_tarball_integrity L fs0 (filepath @ [Filename archive_dict])
                        (PyList (MD5Sums archive_dict)) of
                   Inl e \<Rightarrow> Some e
                 | Inr False \<Rightarrow> Some (SysExit 1)
                 | Inr True \<Rightarrow> None)))"

text \<open>The result is \<open>None\<close> when the call does not return, \<open>Some (Some e, w)\<close>
  when it ends with the error \<open>e\<close>, and \<open>Some (None, w)\<close> when it returns.\<close>

definition run_restore ::
  "lib \<Rightarrow> config \<Rightarrow> path \<Rightarrow> bool \<Rightarrow> world \<Rightarrow> (error option \<times> world) option" where
  "run_restore L cfg filepath keep w =
     (if \<not> isdir (fsys w) filepath then Some (Some (SysExit 1), w)
      else
        (case max_by (getctime L) (glob_glob (fsys w) (sidecar_pattern filepath)) of
           Inl e \<Rightarrow> Some (Some e, w)
         | Inr archive_json \<Rightarrow>
            (case json_load (fsys w) archive_json of
               Inl e \<Rightarrow> Some (Some e, w)
             | Inr archive_dict \<Rightarrow>
                (case (if Location archive_dict = ''glacier''
                       then restore_glacier archive_dict filepath w
                       else if Location archive_dict = ''ris_archive''
                       then Some (Some (SysExit 1), w)
                       else Some (None, w)) of
                   None \<Rightarrow> None
                 | Some (Some e, w1) \<Rightarrow> Some (Some e, w1)
                 | Some (None, w1) \<Rightarrow>
                     Some (restore_verify L (fsys w1) archive_dict filepath None, w1)))))"


section \<open>Concrete inputs\<close>

text \<open>A stand-in for the library on concrete inputs: the digest of raw bytes is the
  bytes with a prefix, every encoded file has one digest and size 1.\<close>

definition toy_md5 :: "fdata \<Rightarrow> string" where
  "toy_md5 d =
     (case d of
        Raw s \<Rightarrow> ''md5-'' @ s
      | TarGz ms \<Rightarrow> ''md5-of-bundle''
      | Json a \<Rightarrow> ''md5-of-json'')"

definition toy_lib :: lib where
  "toy_lib = \<lparr>md5 = toy_md5, enc_size = (\<lambda>d. 1), getctime = (\<lambda>p. 0)\<rparr>"

text \<open>\<^verbatim>\<open>/data\<close> with a hidden file and a visible one.\<close>

definition hidden_fs :: node where
  "hidden_fs =
     Dir [(''data'', Dir [(''.env'', File (Raw ''secret'')), (''a.txt'', File (Raw ''hello''))])]"

text \<open>\<^verbatim>\<open>/data\<close> with a bundle that holds \<^verbatim>\<open>a.txt\<close> only.\<close>

definition bundle_fs :: node where
  "bundle_fs =
     Dir [(''data'', Dir [(''dhslabarchive.abc.tar.gz'',
            File (TarGz [Member [''a.txt''] True (Raw ''hello'')]))])]"

definition toy_cfg :: config where
  "toy_cfg = \<lparr>mode = ''glacier'', username = ''dhs'', s3_region = ''us-east-1'',
     storage_class = ''STANDARD_IA'', globus_endpoint = ''ep'', ris_archive_path = ''/archive''\<rparr>"

text \<open>A world with the tree \<open>t\<close>, a reachable S3 with one empty bucket and a Globus
  endpoint whose tasks succeed.\<close>

definition world_of :: "node \<Rightarrow> world" where
  "world_of t = \<lparr>fsys = t, s3_up = True, buckets = [''dhs-lab-archive-1''],
     objects = (\<lambda>k. None), upload_error = None, restore_refused = False,
     restore_requests = [], clock = 0, globus = TaskStatus ''SUCCEEDED'', ris_store = []\<rparr>"

text \<open>The sidecar of a first archive of the directory \<open>p\<close>, which held \<^verbatim>\<open>a.txt\<close>.\<close>

definition first_manifest :: "path \<Rightarrow> archive_dict" where
  "first_manifest p = \<lparr>Id_key = ''abc'', Timestamp = ''2025-01-01 00:00:00'',
     Location = ''glacier'', Filename = ''dhslabarchive.abc.tar.gz'', LocalPath = p,
     ArchivePath = ''dhs-lab-archive-1'', Files = [[''a.txt'']], Sizes = [5],
     MD5Sums = [''md5-hello''], TarballMD5sum = ''md5-of-bundle'', Username = ''dhs''\<rparr>"

text \<open>\<^verbatim>\<open>/data/<dir>\<close> after that first archive, with a new file \<^verbatim>\<open>b.txt\<close>.\<close>

definition archived_fs :: "string \<Rightarrow> node" where
  "archived_fs dir =
     Dir [(''data'', Dir [(dir, Dir [(''b.txt'', File (Raw ''new'')),
        (''dhslabarchive.abc.json'', File (Json (first_manifest [''data'', dir])))])])]"



definition bundle_body :: fdata where
  "bundle_body = TarGz [Member [''a.txt''] True (Raw ''hello'')]"

text \<open>\<^verbatim>\<open>/data/proj\<close> before any archive, and after the first archive removed
  \<^verbatim>\<open>a.txt\<close>.\<close>

definition proj_fs :: node where
  "proj_fs = Dir [(''data'', Dir [(''proj'', Dir [(''a.txt'', File (Raw ''hello''))])])]"

definition restorable_fs :: node where
  "restorable_fs = Dir [(''data'', Dir [(''proj'', Dir [
        (''dhslabarchive.abc.json'', File (Json (first_manifest [''data'', ''proj''])))])])]"

text \<open>The world in which the bundle of that first archive is on S3 with storage class
  \<open>sclass\<close>, body \<open>b\<close> and \<^verbatim>\<open>Restore\<close> header \<open>hdr\<close>.\<close>

definition s3_world :: "string \<Rightarrow> fdata \<Rightarrow> (nat \<Rightarrow> string option) \<Rightarrow> world" where
  "s3_world sclass b hdr = (world_of restorable_fs)\<lparr>objects :=
      (\<lambda>k. if k = (''dhs-lab-archive-1'', ''dhslabarchive.abc.tar.gz'')
           then Some \<lparr>body = b, StorageClass = Some sclass, Restore = hdr\<rparr> else None)\<rparr>"







section \<open>Properties\<close>

subsection \<open>The build-time integrity check\<close>

text \<open>
  C4.  For a bundle at \<open>tarball_path\<close>, \<^verbatim>\<open>test_tarball_integrity\<close> called with the list
  of recorded fingerprints returns \<^verbatim>\<open>True\<close> exactly when the set of the MD5 sums of the
  bundle's file members equals the set of the recorded MD5 sums.  Only the two sets are
  compared: neither paths nor multiplicities are.
\<close>

theorem test_tarball_integrity_set_equality:
  assumes "lookup fs tarball_path = Some (File (TarGz ms))"
  shows "test_tarball_integrity L fs tarball_path (PyList md5sums) =
           Inr (set (map (\<lambda>m. md5 L (mcontent m)) (filter misfile ms)) = set md5sums)"
  using assms by (simp add: test_tarball_integrity_def get_tarball_md5sums_def Let_def)

text \<open>The enumeration recorded two files with the same content, the bundle holds one of
  them: the check passes.\<close>

theorem test_tarball_integrity_set_equality_witness:
  "lookup bundle_fs [''data'', ''dhslabarchive.abc.tar.gz'']
     = Some (File (TarGz [Member [''a.txt''] True (Raw ''hello'')]))
   \<and> test_tarball_integrity toy_lib bundle_fs [''data'', ''dhslabarchive.abc.tar.gz'']
         (PyList [''md5-hello'', ''md5-hello'']) = Inr True"
proof -
  have b: "lookup bundle_fs [''data'', ''dhslabarchive.abc.tar.gz'']
             = Some (File (TarGz [Member [''a.txt''] True (Raw ''hello'')]))"
    by (simp add: bundle_fs_def)
  show ?thesis
    using b test_tarball_integrity_set_equality [OF b, of toy_lib "[''md5-hello'', ''md5-hello'']"]
    by (simp add: toy_lib_def toy_md5_def)
qed

subsection \<open>The enumerator\<close>

text \<open>
  C3.  \<^verbatim>\<open>get_files\<close> on the directory \<^verbatim>\<open>/data\<close> that holds the hidden file
  \<^verbatim>\<open>.env\<close> lists \<^verbatim>\<open>.env\<close>: the walk skips the names of bundles and sidecars, and no
  other name.
\<close>

theorem get_files_lists_hidden_file:
  "get_files toy_lib hidden_fs [''data''] =
     Inr \<lparr>df_file = [[''.env''], [''a.txt'']], df_size = [6, 5],
          df_md5sum = [''md5-secret'', ''md5-hello'']\<rparr>"
  by code_simp

text \<open>
  C8.  \<^verbatim>\<open>get_files\<close> on a path that is a single file builds the columns \<^verbatim>\<open>file\<close> and
  \<^verbatim>\<open>size\<close> with one element each and leaves \<^verbatim>\<open>md5sum\<close> empty; the data frame
  constructor raises \<^verbatim>\<open>ValueError\<close>, and no file list is returned.
\<close>

theorem get_files_single_file_raises:
  assumes "isfile fs filepath"
  shows "get_files L fs filepath = Inl ValueError"
  using assms
  by (auto simp: get_files_def isfile_def DataFrame_def split: option.splits node.splits)

theorem get_files_single_file_raises_witness:
  "isfile hidden_fs [''data'', ''a.txt'']
   \<and> get_files toy_lib hidden_fs [''data'', ''a.txt''] = Inl ValueError"
proof -
  have f: "isfile hidden_fs [''data'', ''a.txt'']"
    by (simp add: isfile_def hidden_fs_def)
  show ?thesis
    using f get_files_single_file_raises [OF f, of toy_lib] by simp
qed


subsection \<open>The guards of \<^verbatim>\<open>run_archive\<close>\<close>












text \<open>
  C6.  When the sidecar search of \<^verbatim>\<open>run_archive\<close> finds a sidecar and the overwrite
  directive is given, line 767 passes the list of matches to \<^verbatim>\<open>os.path.basename\<close>,
  which raises \<^verbatim>\<open>TypeError\<close>: the call ends there, the world is unchanged and no second
  manifest exists.
\<close>

theorem run_archive_overwrite_raises:
  assumes "glob_glob (fsys w) (sidecar_pattern filepath) \<noteq> []" and "overwrite"
  shows "run_archive L cfg filepath archivepath tarball force overwrite keep rid ts w
           = (Inl TypeError, w)"
  using assms by (simp add: run_archive_def Let_def)

lemma glob_archived_proj:
  "glob_glob (archived_fs ''proj'') (sidecar_pattern [''data'', ''proj''])
     = [[''data'', ''proj'', ''dhslabarchive.abc.json'']]"
  by code_simp

theorem run_archive_overwrite_raises_witness:
  "glob_glob (fsys (world_of (archived_fs ''proj''))) (sidecar_pattern [''data'', ''proj'']) \<noteq> []
   \<and> run_archive toy_lib toy_cfg [''data'', ''proj''] ''dhs-lab-archive-1'' False False True False
        ''AAAAAAAAAAAAAAAAAAAA'' ''2025-02-02 00:00:00'' (world_of (archived_fs ''proj''))
       = (Inl TypeError, world_of (archived_fs ''proj''))"
proof -
  have g: "glob_glob (fsys (world_of (archived_fs ''proj''))) (sidecar_pattern [''data'', ''proj'']) \<noteq> []"
    by (simp add: world_of_def glob_archived_proj)
  have o: "True" by simp
  show ?thesis
    using g run_archive_overwrite_raises [OF g o, of toy_lib toy_cfg "''dhs-lab-archive-1''" False
        False False "''AAAAAAAAAAAAAAAAAAAA''" "''2025-02-02 00:00:00''"]
    by simp
qed

text \<open>
  C9.  The directory \<^verbatim>\<open>/data/run[1]\<close> holds the sidecar \<^verbatim>\<open>dhslabarchive.abc.json\<close> of a
  first archive and a new file \<^verbatim>\<open>b.txt\<close>.  \<^verbatim>\<open>glob.glob\<close> reads \<^verbatim>\<open>[1]\<close> in the
  directory's name as a character class and finds no sidecar, so \<^verbatim>\<open>run_archive\<close>
  without force or overwrite does not stop: it returns a manifest with a new id and
  leaves a second sidecar beside the first.
\<close>

theorem run_archive_guard_misses_bracket_directory:
  "glob_glob (archived_fs ''run[1]'') (sidecar_pattern [''data'', ''run[1]'']) = []
   \<and> fst (run_archive toy_lib toy_cfg [''data'', ''run[1]''] ''dhs-lab-archive-1''
            False False False False ''AAAAAAAAAAAAAAAAAAAA'' ''2025-02-02 00:00:00''
            (world_of (archived_fs ''run[1]'')))
       = Inr \<lparr>Id_key = ''AAAAAAAAAAAAAAAAAAAA'', Timestamp = ''2025-02-02 00:00:00'',
              Location = ''glacier'', Filename = ''dhslabarchive.AAAAAAAAAAAAAAAAAAAA.tar.gz'',
              LocalPath = [''data'', ''run[1]''], ArchivePath = ''dhs-lab-archive-1'',
              Files = [[''b.txt'']], Sizes = [3], MD5Sums = [''md5-new''],
              TarballMD5sum = ''md5-of-bundle'', Username = ''dhs''\<rparr>
   \<and> fsys (snd (run_archive toy_lib toy_cfg [''data'', ''run[1]''] ''dhs-lab-archive-1''
            False False False False ''AAAAAAAAAAAAAAAAAAAA'' ''2025-02-02 00:00:00''
            (world_of (archived_fs ''run[1]''))))
       = Dir [(''data'', Dir [(''run[1]'', Dir [
           (''dhslabarchive.abc.json'', File (Json (first_manifest [''data'', ''run[1]'']))),
           (''dhslabarchive.AAAAAAAAAAAAAAAAAAAA.json'', File (Json
              \<lparr>Id_key = ''AAAAAAAAAAAAAAAAAAAA'', Timestamp = ''2025-02-02 00:00:00'',
               Location = ''glacier'', Filename = ''dhslabarchive.AAAAAAAAAAAAAAAAAAAA.tar.gz'',
               LocalPath = [''data'', ''run[1]''], ArchivePath = ''dhs-lab-archive-1'',
               Files = [[''b.txt'']], Sizes = [3], MD5Sums = [''md5-new''],
               TarballMD5sum = ''md5-of-bundle'', Username = ''dhs''\<rparr>))])])]"
  by code_simp

text \<open>
  For a directory whose path has none of the characters \<^verbatim>\<open>*\<close>, \<^verbatim>\<open>?\<close> and \<^verbatim>\<open>[\<close> the
  search looks at the names in that directory, and the guard holds: with a sidecar in
  the directory and neither force nor overwrite, \<^verbatim>\<open>run_archive\<close> ends with
  \<^verbatim>\<open>sys.exit(1)\<close> in the world it found.
\<close>

lemma has_magic_sidecar: "has_magic ''dhslabarchive.*.json''"
  by (simp add: has_magic_def)

lemma glob_sidecars_plain:
  assumes "\<forall>c \<in> set filepath. \<not> has_magic c"
  shows "glob_glob fs (sidecar_pattern filepath)
           = map (\<lambda>name. filepath @ [name]) (glob1 fs filepath ''dhslabarchive.*.json'' False)"
  using assms by (simp add: glob_glob_def sidecar_pattern_def has_magic_sidecar)

lemma fnmatch_sidecar_not_hidden:
  "fnmatch name ''dhslabarchive.*.json'' \<Longrightarrow> \<not> startswith_dot name"
  by (cases name) (auto simp: fnmatch_def startswith_dot_def)

lemma run_archive_guard_plain_path:
  assumes plain: "\<forall>c \<in> set filepath. \<not> has_magic c"
    and dir: "lookup (fsys w) filepath = Some (Dir es)"
    and entry: "(name, x) \<in> set es"
    and sidecar: "fnmatch name ''dhslabarchive.*.json''"
    and flags: "\<not> force" "\<not> overwrite"
  shows "run_archive L cfg filepath archivepath tarball force overwrite keep rid ts w
           = (Inl (SysExit 1), w)"
proof -
  from entry have "name \<in> set (map fst es)" by force
  with sidecar fnmatch_sidecar_not_hidden [OF sidecar]
  have "name \<in> set (glob1 (fsys w) filepath ''dhslabarchive.*.json'' False)"
    by (simp add: glob1_def dir startswith_dot_def)
  then have "glob_glob (fsys w) (sidecar_pattern filepath) \<noteq> []"
    unfolding glob_sidecars_plain [OF plain] by auto
  with flags show ?thesis by (simp add: run_archive_def Let_def)
qed

subsection \<open>Restore\<close>

text \<open>No call of \<^verbatim>\<open>run_restore\<close> returns normally: the calls that get as far as line
  937 end there.\<close>

lemma run_restore_never_returns:
  "run_restore L cfg filepath keep w \<noteq> Some (None, w')"
  by (auto simp: run_restore_def restore_verify_def
           split: sum.splits option.splits prod.splits if_splits)

text \<open>
  C7.  The bundle is on S3 in class \<^verbatim>\<open>GLACIER\<close> and no restore was ever requested for
  it, so \<^verbatim>\<open>head_object\<close> reports no \<^verbatim>\<open>Restore\<close> header and
  \<^verbatim>\<open>check_restore_status\<close> returns \<^verbatim>\<open>None\<close>.  Line 909 tests
  \<^verbatim>\<open>'ongoing-request="false"' in None\<close>, which raises \<^verbatim>\<open>TypeError\<close>: \<^verbatim>\<open>run_restore\<close>
  ends with that error in the world it started in, where no restore request has been
  issued.
\<close>

theorem run_restore_glacier_no_header_raises:
  "run_restore toy_lib toy_cfg [''data'', ''proj''] False
       (s3_world ''GLACIER'' bundle_body (\<lambda>t. None))
     = Some (Some TypeError, s3_world ''GLACIER'' bundle_body (\<lambda>t. None))
   \<and> restore_requests (s3_world ''GLACIER'' bundle_body (\<lambda>t. None)) = []"
  by (simp add: run_restore_def restore_glacier_def s3_world_def world_of_def restorable_fs_def
      isdir_def glob_glob_def sidecar_pattern_def has_magic_def glob1_def startswith_dot_def
      fnmatch_def toy_lib_def json_load_def first_manifest_def check_storage_class_def
      check_restore_status_def Let_def)

text \<open>
  C2.  The bundle is on S3 in class \<^verbatim>\<open>STANDARD_IA\<close>.  Whether the downloaded bundle has
  the fingerprint that the manifest records (first case) or another one (second case),
  \<^verbatim>\<open>run_restore\<close> ends with \<^verbatim>\<open>UnboundLocalError\<close>: line 937 reads the local variable
  \<^verbatim>\<open>tarball\<close> before line 944 assigns it, so no fingerprint is computed or compared.
\<close>

theorem run_restore_reads_unbound_tarball:
  "map_option fst (run_restore toy_lib toy_cfg [''data'', ''proj''] False
       (s3_world ''STANDARD_IA'' bundle_body (\<lambda>t. None)))
     = Some (Some UnboundLocalError)
   \<and> map_option fst (run_restore toy_lib toy_cfg [''data'', ''proj''] False
       (s3_world ''STANDARD_IA'' (Raw ''garbage'') (\<lambda>t. None)))
     = Some (Some UnboundLocalError)"
  by code_simp

text \<open>
  C1.  \<^verbatim>\<open>/data/proj\<close> holds \<^verbatim>\<open>a.txt\<close>.  \<^verbatim>\<open>run_archive\<close> succeeds and returns the
  manifest; \<^verbatim>\<open>run_restore\<close> in the world it leaves ends with \<^verbatim>\<open>UnboundLocalError\<close>,
  and \<^verbatim>\<open>a.txt\<close> is not a file of the tree afterwards.
\<close>

theorem archive_then_restore_loses_file:
  "fst (run_archive toy_lib toy_cfg [''data'', ''proj''] ''dhs-lab-archive-1''
          False False False False ''AAAAAAAAAAAAAAAAAAAA'' ''2025-02-02 00:00:00''
          (world_of proj_fs))
     = Inr \<lparr>Id_key = ''AAAAAAAAAAAAAAAAAAAA'', Timestamp = ''2025-02-02 00:00:00'',
            Location = ''glacier'', Filename = ''dhslabarchive.AAAAAAAAAAAAAAAAAAAA.tar.gz'',
            LocalPath = [''data'', ''proj''], ArchivePath = ''dhs-lab-archive-1'',
            Files = [[''a.txt'']], Sizes = [5], MD5Sums = [''md5-hello''],
            TarballMD5sum = ''md5-of-bundle'', Username = ''dhs''\<rparr>
   \<and> map_option fst (run_restore toy_lib toy_cfg [''data'', ''proj''] False
        (snd (run_archive toy_lib toy_cfg [''data'', ''proj''] ''dhs-lab-archive-1''
                False False False False ''AAAAAAAAAAAAAAAAAAAA'' ''2025-02-02 00:00:00''
                (world_of proj_fs))))
     = Some (Some UnboundLocalError)
   \<and> map_option (\<lambda>r. isfile (fsys (snd r)) [''data'', ''proj'', ''a.txt''])
        (run_restore toy_lib toy_cfg [''data'', ''proj''] False
          (snd (run_archive toy_lib toy_cfg [''data'', ''proj''] ''dhs-lab-archive-1''
                  False False False False ''AAAAAAAAAAAAAAAAAAAA'' ''2025-02-02 00:00:00''
                  (world_of proj_fs))))
     = Some False"
  by code_simp


subsection \<open>Archiving removes the original files\<close>
















































text \<open>
  The deletion follows the transfer step, not a transfer: \<^verbatim>\<open>run_archive\<close> does not read
  what \<^verbatim>\<open>transfer_to_s3\<close> returns.  When the upload raises \<^verbatim>\<open>ClientError\<close>,
  \<^verbatim>\<open>transfer_to_s3\<close> returns \<^verbatim>\<open>False\<close>, and \<^verbatim>\<open>run_archive\<close> still removes the bundle and
  the enumerated files: \<^verbatim>\<open>a.txt\<close> is then neither on disk nor on S3.
\<close>

lemma archive_deletes_files_when_upload_fails:
  "fst (run_archive toy_lib toy_cfg [''data'', ''proj''] ''dhs-lab-archive-1''
          False False False False ''AAAAAAAAAAAAAAAAAAAA'' ''2025-02-02 00:00:00''
          ((world_of proj_fs)\<lparr>upload_error := Some ClientError\<rparr>))
     = Inr \<lparr>Id_key = ''AAAAAAAAAAAAAAAAAAAA'', Timestamp = ''2025-02-02 00:00:00'',
            Location = ''glacier'', Filename = ''dhslabarchive.AAAAAAAAAAAAAAAAAAAA.tar.gz'',
            LocalPath = [''data'', ''proj''], ArchivePath = ''dhs-lab-archive-1'',
            Files = [[''a.txt'']], Sizes = [5], MD5Sums = [''md5-hello''],
            TarballMD5sum = ''md5-of-bundle'', Username = ''dhs''\<rparr>
   \<and> \<not> isfile (fsys (snd (run_archive toy_lib toy_cfg [''data'', ''proj''] ''dhs-lab-archive-1''
          False False False False ''AAAAAAAAAAAAAAAAAAAA'' ''2025-02-02 00:00:00''
          ((world_of proj_fs)\<lparr>upload_error := Some ClientError\<rparr>))))
        [''data'', ''proj'', ''a.txt'']
   \<and> \<not> isfile (fsys (snd (run_archive toy_lib toy_cfg [''data'', ''proj''] ''dhs-lab-archive-1''
          False False False False ''AAAAAAAAAAAAAAAAAAAA'' ''2025-02-02 00:00:00''
          ((world_of proj_fs)\<lparr>upload_error := Some ClientError\<rparr>))))
        [''data'', ''proj'', ''dhslabarchive.AAAAAAAAAAAAAAAAAAAA.tar.gz'']
   \<and> map_option body (objects (snd (run_archive toy_lib toy_cfg [''data'', ''proj'']
          ''dhs-lab-archive-1'' False False False False ''AAAAAAAAAAAAAAAAAAAA''
          ''2025-02-02 00:00:00'' ((world_of proj_fs)\<lparr>upload_error := Some ClientError\<rparr>)))
        (''dhs-lab-archive-1'', ''dhslabarchive.AAAAAAAAAAAAAAAAAAAA.tar.gz'')) = None"
  by code_simp

end
